theory Spec2Isabelle
  imports Main "HOL-Library.Multiset"
begin

section \<open>Data model\<close>

text \<open>
  The progression engine of \<^verbatim>\<open>tama_rpg/app.py\<close>. A calendar date is the
  ISO string \<^verbatim>\<open>YYYY-MM-DD\<close> in the source, parsed with \<^verbatim>\<open>parse_date\<close> wherever it is
  compared or subtracted; here a date is its day number (the proleptic ordinal of
  \<^verbatim>\<open>date.toordinal()\<close>), so that \<^verbatim>\<open>d + timedelta(days=1)\<close> is \<open>d + 1\<close> and
  \<^verbatim>\<open>(cur_d - last_d).days\<close> is \<open>cur_d - last_d\<close>. On well-formed ISO strings the string
  order used by \<^verbatim>\<open>ORDER BY date\<close> and by \<^verbatim>\<open>min(by_date.keys())\<close> is the order of the
  day numbers. The bound \<^verbatim>\<open>date.max\<close> of Python's calendar is not modelled.

  A row of the table \<^verbatim>\<open>actions\<close> is a pair of its date and its type; the table is the
  list of its rows in ascending \<^verbatim>\<open>id\<close>. A type is any string: \<^verbatim>\<open>log_today\<close> stores what
  the form sent.
\<close>

type_synonym day = int
type_synonym action = "day \<times> string"

text \<open>
  The profile is the dictionary \<^verbatim>\<open>p\<close>. Its six stat entries are read and written
  through a computed key (\<^verbatim>\<open>p[t]\<close>, \<^verbatim>\<open>p[k]\<close>), so they are kept as one function from
  the key to the value; every key the source uses there is one of \<open>STAT_KEYS\<close>.
\<close>

record profile =
  level :: int
  exp :: int
  stats :: "string \<Rightarrow> int"
  streak :: int
  last_check_date :: day

definition STAT_KEYS :: "string list" where
  "STAT_KEYS = [''strength'', ''stamina'', ''intelligence'', ''wealth'', ''discipline'',
                ''consistency'']"

definition ACTION_TYPES :: "string list" where
  "ACTION_TYPES = [''strength'', ''stamina'', ''intelligence'', ''wealth'', ''discipline'']"

definition GAIN :: "string \<rightharpoonup> int" where
  "GAIN = map_of [(''strength'', 5), (''stamina'', 5), (''intelligence'', 3),
                  (''wealth'', 7), (''discipline'', 4)]"

definition EXP_PER_ACTION :: int where
  "EXP_PER_ACTION = 10"

definition CONSISTENCY_PER_DAY :: int where
  "CONSISTENCY_PER_DAY = 2"

section \<open>Experience and levels\<close>

definition need_exp_for_next :: "int \<Rightarrow> int" where
  "need_exp_for_next lv = 100 + (lv * 20)"

definition streak_bonus_exp :: "int \<Rightarrow> int" where
  "streak_bonus_exp s =
     (if s \<ge> 30 then 30
      else if s \<ge> 10 then 30
      else if s \<ge> 5 then 15
      else if s \<ge> 2 then 5
      else 0)"

text \<open>
  The level-up loop \<^verbatim>\<open>while p["exp"] >= need_exp_for_next(p["level"])\<close>. Each round
  raises the level; from level \<open>-4\<close> on the requirement is positive and each round lowers
  the experience, which bounds the rounds for every start.
\<close>

function level_up :: "profile \<Rightarrow> profile" where
  "level_up p =
     (if exp p \<ge> need_exp_for_next (level p)
      then level_up (p\<lparr>exp := exp p - need_exp_for_next (level p), level := level p + 1\<rparr>)
      else p)"
  by pat_completeness auto
termination
  by (relation "measures [\<lambda>p. nat (- 4 - level p), \<lambda>p. nat (exp p)]")
     (auto simp: need_exp_for_next_def)

declare level_up.simps [simp del]

section \<open>Full recompute\<close>

text \<open>\<^verbatim>\<open>get_all_actions\<close>: the rows \<^verbatim>\<open>ORDER BY date ASC, id ASC\<close>.\<close>

definition get_all_actions :: "action list \<Rightarrow> action list" where
  "get_all_actions db = sort_key fst db"

text \<open>
  \<^verbatim>\<open>by_date.get(d_str, [])\<close> after the grouping loop: the types of the rows dated \<open>d\<close>,
  in the order of the list.
\<close>

definition by_date :: "action list \<Rightarrow> day \<Rightarrow> string list" where
  "by_date actions d = map snd (filter (\<lambda>a. fst a = d) actions)"

text \<open>The loop \<^verbatim>\<open>for t in types_today\<close>.\<close>

fun apply_types :: "string list \<Rightarrow> profile \<Rightarrow> profile" where
  "apply_types [] p = p"
| "apply_types (t # ts) p =
     apply_types ts
       (case GAIN t of
          None \<Rightarrow> p
        | Some g \<Rightarrow> p\<lparr>stats := (stats p)(t := stats p t + g), exp := exp p + EXP_PER_ACTION\<rparr>)"

text \<open>The branch on \<^verbatim>\<open>len(types_today) > 0\<close>.\<close>

definition streak_step :: "string list \<Rightarrow> profile \<Rightarrow> profile" where
  "streak_step types_today p =
     (if length types_today > 0
      then p\<lparr>stats := (stats p)(''consistency'' := stats p ''consistency'' + CONSISTENCY_PER_DAY),
             streak := streak p + 1,
             exp := exp p + streak_bonus_exp (streak p + 1)\<rparr>
      else p\<lparr>streak := 0\<rparr>)"

text \<open>The body of the day loop, and the loop \<^verbatim>\<open>while d <= end\<close>.\<close>

definition day_body :: "string list \<Rightarrow> profile \<Rightarrow> profile" where
  "day_body types_today p = level_up (streak_step types_today (apply_types types_today p))"

function day_walk :: "(day \<Rightarrow> string list) \<Rightarrow> day \<Rightarrow> day \<Rightarrow> profile \<Rightarrow> profile" where
  "day_walk bd d end_d p =
     (if d \<le> end_d then day_walk bd (d + 1) end_d (day_body (bd d) p) else p)"
  by pat_completeness auto
termination
  by (relation "measure (\<lambda>(bd, d, end_d, p). nat (end_d + 1 - d))") auto

declare day_walk.simps [simp del]

text \<open>
  The dictionary \<^verbatim>\<open>last_date_for\<close>: its keys are \<open>ACTION_TYPES\<close> from the start, a key
  holding \<^verbatim>\<open>None\<close> is an unset entry of the map.
\<close>

fun last_date_for :: "action list \<Rightarrow> (string \<rightharpoonup> day) \<Rightarrow> (string \<rightharpoonup> day)" where
  "last_date_for [] m = m"
| "last_date_for ((d, t) # as) m =
     last_date_for as (if t \<in> set ACTION_TYPES then m(t \<mapsto> d) else m)"

text \<open>
  The body of the decay loop, which \<^verbatim>\<open>recompute_profile_from_actions\<close> and
  \<^verbatim>\<open>apply_weekly_decay\<close> both write out: \<open>lookup t\<close> is the last date of type \<open>t\<close>.
\<close>

definition decay_one :: "(string \<rightharpoonup> day) \<Rightarrow> day \<Rightarrow> string \<Rightarrow> profile \<Rightarrow> profile" where
  "decay_one lookup cur_d t p =
     (case lookup t of
        None \<Rightarrow> p
      | Some last_d \<Rightarrow>
          if cur_d - last_d \<ge> 7 then p\<lparr>stats := (stats p)(t := max 0 (stats p t - 2))\<rparr> else p)"

fun decay_loop :: "(string \<rightharpoonup> day) \<Rightarrow> day \<Rightarrow> string list \<Rightarrow> profile \<Rightarrow> profile" where
  "decay_loop lookup cur_d [] p = p"
| "decay_loop lookup cur_d (t # ts) p = decay_loop lookup cur_d ts (decay_one lookup cur_d t p)"

definition zero_profile :: "day \<Rightarrow> profile" where
  "zero_profile today =
     \<lparr>level = 1, exp = 0, stats = (\<lambda>k. 0), streak = 0, last_check_date = today\<rparr>"

text \<open>The profile after the day loop, before the decay; \<open>actions\<close> is not empty here.\<close>

definition walked_profile :: "action list \<Rightarrow> day \<Rightarrow> profile" where
  "walked_profile actions today =
     day_walk (by_date actions) (Min (set (map fst actions))) today (zero_profile today)"

definition recompute_profile_from_actions :: "action list \<Rightarrow> day \<Rightarrow> profile" where
  "recompute_profile_from_actions db today =
     (let actions = get_all_actions db in
      if actions = [] then zero_profile today
      else decay_loop (last_date_for actions Map.empty) today ACTION_TYPES
             (walked_profile actions today))"

section \<open>Full recompute with deferred levelling\<close>

text \<open>
  The other strategy that the specification compares with the source: the day loop
  without the level-up loop in its body, and the level-up loop run once after the last
  day. Everything else is the source's.
\<close>

definition day_body_deferred :: "string list \<Rightarrow> profile \<Rightarrow> profile" where
  "day_body_deferred types_today p = streak_step types_today (apply_types types_today p)"

function day_walk_deferred :: "(day \<Rightarrow> string list) \<Rightarrow> day \<Rightarrow> day \<Rightarrow> profile \<Rightarrow> profile"
  where
  "day_walk_deferred bd d end_d p =
     (if d \<le> end_d then day_walk_deferred bd (d + 1) end_d (day_body_deferred (bd d) p)
      else p)"
  by pat_completeness auto
termination
  by (relation "measure (\<lambda>(bd, d, end_d, p). nat (end_d + 1 - d))") auto

declare day_walk_deferred.simps [simp del]

definition recompute_profile_deferred :: "action list \<Rightarrow> day \<Rightarrow> profile" where
  "recompute_profile_deferred db today =
     (let actions = get_all_actions db in
      if actions = [] then zero_profile today
      else decay_loop (last_date_for actions Map.empty) today ACTION_TYPES
             (level_up (day_walk_deferred (by_date actions) (Min (set (map fst actions)))
                          today (zero_profile today))))"

section \<open>Incremental daily check\<close>

text \<open>
  \<^verbatim>\<open>did_anything_on\<close>: \<^verbatim>\<open>SELECT 1 FROM actions WHERE date=? LIMIT 1\<close> returns a row.
\<close>

definition did_anything_on :: "action list \<Rightarrow> day \<Rightarrow> bool" where
  "did_anything_on db d = (find (\<lambda>a. fst a = d) db \<noteq> None)"

text \<open>
  \<^verbatim>\<open>last_action_date_for_type\<close>: the first row of
  \<^verbatim>\<open>WHERE type=? ORDER BY date DESC LIMIT 1\<close>, if any.
\<close>

definition last_action_date_for_type :: "action list \<Rightarrow> string \<rightharpoonup> day" where
  "last_action_date_for_type db t =
     (case sort_key (\<lambda>a. - fst a) (filter (\<lambda>a. snd a = t) db) of
        [] \<Rightarrow> None
      | a # _ \<Rightarrow> Some (fst a))"

definition apply_weekly_decay :: "action list \<Rightarrow> profile \<Rightarrow> day \<Rightarrow> profile" where
  "apply_weekly_decay db p current_date =
     decay_loop (last_action_date_for_type db) current_date ACTION_TYPES p"

text \<open>The loop \<^verbatim>\<open>while d <= cur\<close> of \<^verbatim>\<open>handle_daily_check\<close>.\<close>

function streak_loop :: "action list \<Rightarrow> day \<Rightarrow> day \<Rightarrow> profile \<Rightarrow> profile" where
  "streak_loop db d cur p =
     (if d \<le> cur
      then streak_loop db (d + 1) cur
             (if did_anything_on db d then p\<lparr>streak := streak p + 1\<rparr> else p\<lparr>streak := 0\<rparr>)
      else p)"
  by pat_completeness auto
termination
  by (relation "measure (\<lambda>(db, d, cur, p). nat (cur + 1 - d))") auto

declare streak_loop.simps [simp del]

definition handle_daily_check :: "action list \<Rightarrow> profile \<Rightarrow> day \<Rightarrow> profile" where
  "handle_daily_check db p current_date =
     (let last = last_check_date p; cur = current_date in
      if cur \<le> last then p
      else (apply_weekly_decay db (streak_loop db (last + 1) cur p) current_date)
             \<lparr>last_check_date := current_date\<rparr>)"

section \<open>Classification\<close>

text \<open>
  The expression \<^verbatim>\<open>int(v1 * 0.7)\<close> multiplies in binary64. The literal \<^verbatim>\<open>0.7\<close> is the
  double \<open>6305039478318694 / 2 ^ 53\<close>. Converting the integer \<^verbatim>\<open>v1\<close> rounds it to 53
  significant bits, ties to even, and raises \<^verbatim>\<open>OverflowError\<close> when the rounded value
  reaches \<open>2 ^ 1024\<close>; the product of the two doubles is rounded the same way (it is
  neither subnormal nor beyond the range, its magnitude lying between \<open>0.7\<close> and that of
  the converted integer); \<^verbatim>\<open>int\<close> drops the fraction. The magnitude is computed on
  natural numbers, scaled by \<open>2 ^ 53\<close> for the product; the sign is carried outside.
\<close>

datatype error = OverflowError | KeyError | IndexError

fun bit_length :: "nat \<Rightarrow> nat" where
  "bit_length n = (if n = 0 then 0 else Suc (bit_length (n div 2)))"

declare bit_length.simps [simp del]

definition round_to_53_bits :: "nat \<Rightarrow> nat" where
  "round_to_53_bits n =
     (let b = bit_length n in
      if b \<le> 53 then n
      else
        let s = b - 53; q = n div 2 ^ s; r = n mod 2 ^ s; h = 2 ^ (s - 1)
        in (if r > h \<or> (r = h \<and> odd q) then q + 1 else q) * 2 ^ s)"

definition DOUBLE_0_7 :: nat where
  "DOUBLE_0_7 = 6305039478318694"

definition int_times_0_7 :: "int \<Rightarrow> error + int" where
  "int_times_0_7 v =
     (let f = round_to_53_bits (nat \<bar>v\<bar>) in
      if f \<ge> 2 ^ 1024 then Inl OverflowError
      else Inr (sgn v * int (round_to_53_bits (f * DOUBLE_0_7) div 2 ^ 53)))"

text \<open>
  A label is a Python string, the list of its code points. The source writes the same
  table twice, for the base class and for the trait.
\<close>

type_synonym label = "nat list"

definition CLASS_LABEL :: "string \<rightharpoonup> label" where
  "CLASS_LABEL =
     map_of [(''strength'', [48372, 46356, 48716, 45908]),
             (''stamina'', [47084, 45320]),
             (''intelligence'', [54617, 51088]),
             (''wealth'', [51116, 47141, 44032]),
             (''discipline'', [54788, 51088]),
             (''consistency'', [47569, 51008, 45576])]"

definition EXPANDED_TITLE :: label where
  "EXPANDED_TITLE = [47569, 51008, 45576, 40, 54869, 51109, 54805, 41]"

text \<open>
  \<^verbatim>\<open>sorted(stats.items(), key=lambda kv: kv[1], reverse=True)\<close>: Python's sort is
  stable, also with \<^verbatim>\<open>reverse=True\<close>: items of equal value stay in the order of
  \<^verbatim>\<open>stats\<close>, which is that of \<open>STAT_KEYS\<close>. An ascending stable sort on the negated
  value does the same.
\<close>

definition sorted_stats :: "profile \<Rightarrow> (string \<times> int) list" where
  "sorted_stats p = sort_key (\<lambda>kv. - snd kv) (map (\<lambda>k. (k, stats p k)) STAT_KEYS)"

text \<open>
  The trait: \<^verbatim>\<open>v1 > 0 and v2 >= int(v1 * 0.7)\<close> evaluates the product only when
  \<^verbatim>\<open>v1 > 0\<close>.
\<close>

definition trait_of :: "int \<Rightarrow> string \<Rightarrow> int \<Rightarrow> error + label option" where
  "trait_of v1 top2 v2 =
     (if v1 > 0 then
        (case int_times_0_7 v1 of
           Inl e \<Rightarrow> Inl e
         | Inr m \<Rightarrow>
             if v2 \<ge> m then
               (case CLASS_LABEL top2 of None \<Rightarrow> Inl KeyError | Some l \<Rightarrow> Inr (Some l))
             else Inr None)
      else Inr None)"

definition compute_class_and_traits ::
  "profile \<Rightarrow> error + (label \<times> label option \<times> label option \<times> (string \<times> int) list)" where
  "compute_class_and_traits p =
     (case sorted_stats p of
        (top1, v1) # (top2, v2) # (top3, v3) # rest \<Rightarrow>
          (case CLASS_LABEL top1 of
             None \<Rightarrow> Inl KeyError
           | Some base_class \<Rightarrow>
               (case trait_of v1 top2 v2 of
                  Inl e \<Rightarrow> Inl e
                | Inr trait \<Rightarrow>
                    Inr (base_class, trait,
                         (if v1 - v3 \<le> 10 \<and> v1 > 0 then Some EXPANDED_TITLE else None),
                         sorted_stats p)))
      | _ \<Rightarrow> Inl IndexError)"

section \<open>Properties of the steps\<close>

lemma level_up_step:
  "exp p \<ge> need_exp_for_next (level p) \<Longrightarrow>
   level_up p = level_up (p\<lparr>exp := exp p - need_exp_for_next (level p), level := level p + 1\<rparr>)"
  by (subst level_up.simps) simp

lemma level_up_fixed: "exp p < need_exp_for_next (level p) \<Longrightarrow> level_up p = p"
  by (subst level_up.simps) simp

lemma level_up_frame [simp]:
  "stats (level_up p) = stats p" "streak (level_up p) = streak p"
  "last_check_date (level_up p) = last_check_date p"
  by (induction p rule: level_up.induct, subst level_up.simps, simp)+

lemma level_up_below_need: "exp (level_up p) < need_exp_for_next (level (level_up p))"
proof (induction p rule: level_up.induct)
  case (1 p)
  show ?case
  proof (cases "exp p \<ge> need_exp_for_next (level p)")
    case True
    with 1 show ?thesis by (simp add: level_up_step)
  next
    case False
    then show ?thesis by (simp add: level_up_fixed)
  qed
qed

lemma level_up_idem [simp]: "level_up (level_up p) = level_up p"
  by (rule level_up_fixed) (rule level_up_below_need)

lemma level_up_ge: "1 \<le> level p \<Longrightarrow> 0 \<le> exp p
  \<Longrightarrow> 1 \<le> level (level_up p) \<and> 0 \<le> exp (level_up p)"
proof (induction p rule: level_up.induct)
  case (1 p)
  show ?case
  proof (cases "exp p \<ge> need_exp_for_next (level p)")
    case True
    with 1 show ?thesis
      by (simp add: level_up_step need_exp_for_next_def)
  next
    case False
    with 1 show ?thesis by (simp add: level_up_fixed)
  qed
qed

lemma GAIN_pos: "GAIN t = Some g \<Longrightarrow> 0 < g"
  by (auto simp: GAIN_def split: if_splits)

lemma apply_types_frame [simp]:
  "level (apply_types ts p) = level p" "streak (apply_types ts p) = streak p"
  "last_check_date (apply_types ts p) = last_check_date p"
  by (induction ts arbitrary: p; simp split: option.splits)+

lemma apply_types_exp_ge: "exp p \<le> exp (apply_types ts p)"
proof (induction ts arbitrary: p)
  case Nil
  show ?case by simp
next
  case (Cons t ts)
  show ?case
  proof (cases "GAIN t")
    case None
    then show ?thesis using Cons [of p] by simp
  next
    case (Some g)
    then show ?thesis
      using Cons [of "p\<lparr>stats := (stats p)(t := stats p t + g), exp := exp p + EXP_PER_ACTION\<rparr>"]
      by (simp add: EXP_PER_ACTION_def)
  qed
qed

lemma apply_types_stats_ge: "stats p k \<le> stats (apply_types ts p) k"
proof (induction ts arbitrary: p)
  case Nil
  show ?case by simp
next
  case (Cons t ts)
  show ?case
  proof (cases "GAIN t")
    case None
    then show ?thesis using Cons [of p] by simp
  next
    case (Some g)
    then show ?thesis
      using Cons [of "p\<lparr>stats := (stats p)(t := stats p t + g), exp := exp p + EXP_PER_ACTION\<rparr>"]
        GAIN_pos [OF Some]
      by (simp split: if_splits)
  qed
qed

lemma apply_types_shift:
  "apply_types ts (p\<lparr>exp := e, level := l\<rparr>) =
   (apply_types ts p)\<lparr>exp := exp (apply_types ts p) - exp p + e, level := l\<rparr>"
proof (induction ts arbitrary: p e)
  case Nil
  show ?case by simp
next
  case (Cons t ts)
  show ?case
  proof (cases "GAIN t")
    case None
    then show ?thesis using Cons [where p = p and e = e] by simp
  next
    case (Some g)
    let ?q = "p\<lparr>stats := (stats p)(t := stats p t + g), exp := exp p + EXP_PER_ACTION\<rparr>"
    have "apply_types (t # ts) (p\<lparr>exp := e, level := l\<rparr>) =
          apply_types ts (?q\<lparr>exp := e + EXP_PER_ACTION, level := l\<rparr>)"
      unfolding apply_types.simps Some option.case
      by (rule arg_cong [where f = "apply_types ts"]) (cases p, simp)
    also have "\<dots> = (apply_types ts ?q)\<lparr>exp := exp (apply_types ts ?q) - exp ?q + (e + EXP_PER_ACTION), level := l\<rparr>"
      by (rule Cons)
    finally show ?thesis using Some by simp
  qed
qed

lemma streak_bonus_exp_nonneg: "0 \<le> streak_bonus_exp s"
  by (simp add: streak_bonus_exp_def)

lemma streak_step_frame [simp]:
  "level (streak_step ts p) = level p"
  "last_check_date (streak_step ts p) = last_check_date p"
  by (simp_all add: streak_step_def)

lemma streak_step_exp_ge: "exp p \<le> exp (streak_step ts p)"
  by (simp add: streak_step_def streak_bonus_exp_nonneg)

lemma streak_step_shift:
  "streak_step ts (p\<lparr>exp := e, level := l\<rparr>) =
   (streak_step ts p)\<lparr>exp := exp (streak_step ts p) - exp p + e, level := l\<rparr>"
  by (simp add: streak_step_def)

section \<open>Results\<close>

text \<open>
  C6. The streak bonus is 0 at streak 1, 5 on [2,4], 15 on [5,9] and 30 from 10 on; from
  30 on it is the same 30 as on [10,29].
\<close>

theorem streak_bonus_exp_table:
  "streak_bonus_exp 1 = 0
   \<and> (2 \<le> s \<and> s \<le> 4 \<longrightarrow> streak_bonus_exp s = 5)
   \<and> (5 \<le> s \<and> s \<le> 9 \<longrightarrow> streak_bonus_exp s = 15)
   \<and> (10 \<le> s \<longrightarrow> streak_bonus_exp s = 30)
   \<and> (10 \<le> s \<and> s \<le> 29 \<and> 30 \<le> s' \<longrightarrow> streak_bonus_exp s' = streak_bonus_exp s)"
  by (simp add: streak_bonus_exp_def)

theorem streak_bonus_exp_table_witness:
  "streak_bonus_exp 1 = 0 \<and> streak_bonus_exp 3 = 5 \<and> streak_bonus_exp 7 = 15
   \<and> streak_bonus_exp 12 = 30 \<and> streak_bonus_exp 45 = streak_bonus_exp 12"
  using streak_bonus_exp_table [of 3 45] streak_bonus_exp_table [of 7 45]
        streak_bonus_exp_table [of 12 45]
  by simp

text \<open>
  C5. On the empty log the full recompute returns the zero-state profile: level 1,
  experience 0, every stat 0, streak 0, last-evaluated date today. The model has no error
  branch to take: the source returns before it parses a date or reads the grouping.
\<close>

theorem recompute_empty_log:
  "recompute_profile_from_actions [] today =
     \<lparr>level = 1, exp = 0, stats = (\<lambda>k. 0), streak = 0, last_check_date = today\<rparr>"
  by (simp add: recompute_profile_from_actions_def get_all_actions_def zero_profile_def)

end
